theory Spec2Isabelle
  imports Main
begin

section \<open>Python values and errors\<close>

text \<open>
  A decoded JSON body, as \<^verbatim>\<open>res.json()\<close> returns it, and the two Python values the
  code itself stores in \<^verbatim>\<open>_data_dict\<close>: \<^verbatim>\<open>{}\<close> is \<open>JObj []\<close> and \<^verbatim>\<open>None\<close> is
  \<open>JNull\<close>. A decoded dictionary is an association list read with \<open>map_of\<close>.
  Numbers with a fraction are left out: no branch of the code modelled here tells them
  from a string.
\<close>

datatype json =
    JNull
  | JBool bool
  | JInt int
  | JStr string
  | JList "json list"
  | JObj "(string \<times> json) list"

text \<open>
  Every exception the modelled code can surface. The two HTTP conditions carry
  \<^verbatim>\<open>status_code\<close>, \<^verbatim>\<open>reason\<close> and \<^verbatim>\<open>text\<close>, in that order.
\<close>

datatype error =
    UnauthorizedError int string string
  | HTTPError int string string
  | MultipleObjectsReturned
  | RequestException string
  | JSONDecodeError
  | KeyError string
  | TypeError
  | ValueError
  | OverflowError
  | AttributeError
  | StopIteration

text \<open>Python truthiness, which \<^verbatim>\<open>not self._data_dict\<close> tests.\<close>

fun truthy :: "json \<Rightarrow> bool" where
  "truthy JNull = False"
| "truthy (JBool b) = b"
| "truthy (JInt n) = (n \<noteq> 0)"
| "truthy (JStr s) = (s \<noteq> [])"
| "truthy (JList xs) = (xs \<noteq> [])"
| "truthy (JObj kvs) = (kvs \<noteq> [])"

text \<open>\<^verbatim>\<open>d[k]\<close> with a string key: only a dictionary can be read that way.\<close>

fun subscript :: "json \<Rightarrow> string \<Rightarrow> error + json" where
  "subscript (JObj kvs) k = (case map_of kvs k of None \<Rightarrow> Inl (KeyError k) | Some v \<Rightarrow> Inr v)"
| "subscript JNull k = Inl TypeError"
| "subscript (JBool b) k = Inl TypeError"
| "subscript (JInt n) k = Inl TypeError"
| "subscript (JStr s) k = Inl TypeError"
| "subscript (JList xs) k = Inl TypeError"

text \<open>\<^verbatim>\<open>d.get(k)\<close> on a dictionary: \<^verbatim>\<open>None\<close> for a missing key.\<close>

definition dict_get :: "(string \<times> json) list \<Rightarrow> string \<Rightarrow> json" where
  "dict_get kvs k = (case map_of kvs k of None \<Rightarrow> JNull | Some v \<Rightarrow> v)"

text \<open>
  \<^verbatim>\<open>iter(v)\<close>: the elements of a list, the keys of a dictionary, the characters of a
  string; anything else is not iterable.
\<close>

fun iter_elems :: "json \<Rightarrow> error + json list" where
  "iter_elems (JList xs) = Inr xs"
| "iter_elems (JObj kvs) = Inr (map (\<lambda>kv. JStr (fst kv)) kvs)"
| "iter_elems (JStr s) = Inr (map (\<lambda>c. JStr [c]) s)"
| "iter_elems JNull = Inl TypeError"
| "iter_elems (JBool b) = Inl TypeError"
| "iter_elems (JInt n) = Inl TypeError"

text \<open>\<^verbatim>\<open>sys.maxsize\<close> of a 64-bit CPython.\<close>

definition maxsize :: int where
  "maxsize = 2 ^ 63 - 1"

text \<open>
  What the builtin \<^verbatim>\<open>len\<close> does with the value \<^verbatim>\<open>__len__\<close> returned: it must be an
  integer (a bool is one), not negative, and fit an index.
\<close>

fun len_check :: "json \<Rightarrow> error + int" where
  "len_check (JInt n) =
     (if n < 0 then Inl ValueError else if maxsize < n then Inl OverflowError else Inr n)"
| "len_check (JBool b) = Inr (if b then 1 else 0)"
| "len_check JNull = Inl TypeError"
| "len_check (JStr s) = Inl TypeError"
| "len_check (JList xs) = Inl TypeError"
| "len_check (JObj kvs) = Inl TypeError"

text \<open>\<^verbatim>\<open>sep.join(xs)\<close> and \<^verbatim>\<open>"%d" % n\<close>.\<close>

fun join :: "string \<Rightarrow> string list \<Rightarrow> string" where
  "join sep [] = []"
| "join sep [x] = x"
| "join sep (x # y # ys) = x @ sep @ join sep (y # ys)"

fun str_nat :: "nat \<Rightarrow> string" where
  "str_nat n =
     (if n < 10 then [''0123456789'' ! n]
      else str_nat (n div 10) @ [''0123456789'' ! (n mod 10)])"

definition str_int :: "int \<Rightarrow> string" where
  "str_int i = (if i < 0 then ''-'' @ str_nat (nat (- i)) else str_nat (nat i))"

section \<open>The transport\<close>

text \<open>
  A response of the HTTP session: its status code, the message of the
  \<^verbatim>\<open>requests.HTTPError\<close> that \<^verbatim>\<open>raise_for_status\<close> raises for it (\<^verbatim>\<open>str(e)\<close>), its
  raw body (\<^verbatim>\<open>res.text\<close>) and the decoded body (\<^verbatim>\<open>res.json()\<close>, \<open>None\<close> when
  decoding raises).
\<close>

record response =
  status_code :: int
  error_str :: string
  body_text :: string
  body_json :: "json option"

text \<open>
  \<^verbatim>\<open>session.get(url)\<close> either raises (no response at all) or answers. The server may
  answer the same URL differently over time, so the transport reads the requests
  sent so far as well as the URL.
\<close>

datatype reply = Raises string | Answers response

type_synonym transport = "string list \<Rightarrow> string \<Rightarrow> reply"

text \<open>
  \<^verbatim>\<open>Response.raise_for_status()\<close> of the requests library raises \<^verbatim>\<open>HTTPError\<close> for a
  client error (400 to 499) and for a server error (500 to 599), and for no other
  status.
\<close>

definition raise_for_status :: "response \<Rightarrow> bool" where
  "raise_for_status res = (400 \<le> status_code res \<and> status_code res < 600)"

section \<open>The connection: \<^verbatim>\<open>TeamCity.__init__\<close>\<close>

record teamcity =
  username :: "string option"
  password :: "string option"
  protocol :: string
  server :: string
  port :: int
  session_get :: transport
  base_base_url :: string
  tc_base_url :: string

definition truthy_str :: "string option \<Rightarrow> bool" where
  "truthy_str s = (case s of None \<Rightarrow> False | Some t \<Rightarrow> t \<noteq> [])"

definition TeamCity_init ::
  "string option \<Rightarrow> string option \<Rightarrow> string \<Rightarrow> string \<Rightarrow> int option \<Rightarrow> transport \<Rightarrow> teamcity"
where
  "TeamCity_init usr pwd proto srv prt sess =
     (let dflt = (if proto = ''https'' then 443 else 80);
          p = (case prt of None \<Rightarrow> dflt | Some n \<Rightarrow> if n \<noteq> 0 then n else dflt);
          b0 = proto @ ''://'' @ srv;
          b1 = (if proto = ''http'' \<and> p \<noteq> 80 then b0 @ '':'' @ str_int p else b0);
          b2 = (if proto = ''https'' \<and> p \<noteq> 443 then b1 @ '':'' @ str_int p else b1)
      in \<lparr> username = usr, password = pwd, protocol = proto, server = srv, port = p,
           session_get = sess, base_base_url = b2,
           tc_base_url = (if truthy_str usr \<and> truthy_str pwd then b2 @ ''/httpAuth''
                          else b2 @ ''/guestAuth'') \<rparr>)"

section \<open>The locator\<close>

text \<open>
  Modelled from the spec: the class \<^verbatim>\<open>Locator\<close> (\<^verbatim>\<open>core/locator.py\<close>) is not among the
  sources. The spec gives it an ordered sequence of (name, string value) pairs;
  \<^verbatim>\<open>add_predicate\<close> (called as \<^verbatim>\<open>add_pred\<close> by the query set) appends a pair and never
  replaces one, and \<^verbatim>\<open>render\<close> (\<^verbatim>\<open>str(locator)\<close> in the query set) joins the pairs with
  commas, each as \<^verbatim>\<open>name:value\<close>, the empty locator giving the empty string.
\<close>

record locator =
  preds :: "(string \<times> string) list"

definition Locator_init :: locator where
  \<comment> \<open>Modelled from the spec: a fresh locator holds no predicate.\<close>
  "Locator_init = \<lparr> preds = [] \<rparr>"

definition add_pred :: "locator \<Rightarrow> string \<Rightarrow> string \<Rightarrow> locator" where
  \<comment> \<open>Modelled from the spec: appends, keeps the call order, no deduplication.\<close>
  "add_pred L name v = L\<lparr> preds := preds L @ [(name, v)] \<rparr>"

definition render_pred :: "string \<times> string \<Rightarrow> string" where
  \<comment> \<open>Modelled from the spec: one predicate is \<^verbatim>\<open>name:value\<close>.\<close>
  "render_pred nv = fst nv @ '':'' @ snd nv"

definition render :: "locator \<Rightarrow> string" where
  \<comment> \<open>Modelled from the spec: comma-joined in insertion order.\<close>
  "render L = join '','' (map render_pred (preds L))"

section \<open>The query set\<close>

text \<open>
  The attributes of a \<^verbatim>\<open>QuerySet\<close>; \<open>url\<close> is the attribute \<^verbatim>\<open>_fetch\<close> sets and is
  absent before the first fetch. The requests sent through the session so far are
  threaded beside the query set, so every operation returns its result (or the
  exception it raises), the query set as it leaves it, and the requests sent.
\<close>

record queryset =
  qs_teamcity :: teamcity
  base_url :: string
  locator_of :: locator
  data_dict :: json
  url :: "string option"

record project =
  p_id :: json
  p_name :: json
  p_description :: json
  p_href :: json
  p_web_url :: json
  p_parent_project_id :: json
  p_teamcity :: teamcity
  p_data_dict :: json

type_synonym 'a outcome = "(error + 'a) \<times> queryset \<times> string list"

definition uri :: string where
  "uri = ''/app/rest/projects/''"

definition QuerySet_init :: "teamcity \<Rightarrow> queryset" where
  "QuerySet_init tc =
     \<lparr> qs_teamcity = tc, base_url = tc_base_url tc @ uri, locator_of = Locator_init,
       data_dict = JObj [], url = None \<rparr>"

definition add_pred_qs :: "queryset \<Rightarrow> string \<Rightarrow> string \<Rightarrow> queryset" where
  "add_pred_qs qs name v = qs\<lparr> locator_of := add_pred (locator_of qs) name v \<rparr>"

text \<open>\<^verbatim>\<open>ProjectQuerySet.filter(id=None, name=None)\<close>.\<close>

definition filter_qs :: "queryset \<Rightarrow> string option \<Rightarrow> string option \<Rightarrow> queryset" where
  "filter_qs qs ident name =
     (let qs1 = (case ident of None \<Rightarrow> qs | Some i \<Rightarrow> add_pred_qs qs ''id'' i)
      in case name of None \<Rightarrow> qs1 | Some n \<Rightarrow> add_pred_qs qs1 ''name'' n)"

definition get_url :: "queryset \<Rightarrow> bool \<Rightarrow> string option \<Rightarrow> string" where
  "get_url qs details href =
     (case href of
        Some h \<Rightarrow> ''http://'' @ server (qs_teamcity qs) @ h
      | None \<Rightarrow>
          (let locator_str = render (locator_of qs)
           in if locator_str \<noteq> [] then
                (if details then base_url qs @ locator_str
                 else base_url qs @ ''?locator='' @ locator_str)
              else base_url qs))"

definition fetch :: "queryset \<Rightarrow> string list \<Rightarrow> bool \<Rightarrow> string option \<Rightarrow> json outcome" where
  "fetch qs sent details href =
     (let u = get_url qs details href;
          qs1 = qs\<lparr> url := Some u \<rparr>;
          sent1 = sent @ [u]
      in case session_get (qs_teamcity qs) sent u of
           Raises msg \<Rightarrow> (Inl (RequestException msg), qs1, sent1)
         | Answers res \<Rightarrow>
             if raise_for_status res then
               (if status_code res = 401
                then (Inl (UnauthorizedError (status_code res) (error_str res) (body_text res)),
                      qs1, sent1)
                else (Inl (HTTPError (status_code res) (error_str res) (body_text res)),
                      qs1, sent1))
             else (case body_json res of
                     None \<Rightarrow> (Inl JSONDecodeError, qs1, sent1)
                   | Some d \<Rightarrow> (Inr d, qs1, sent1)))"

definition data :: "queryset \<Rightarrow> string list \<Rightarrow> bool \<Rightarrow> string option \<Rightarrow> json outcome" where
  "data qs sent details href =
     (if \<not> truthy (data_dict qs) then
        (case fetch qs sent details href of
           (Inl e, qs1, sent1) \<Rightarrow> (Inl e, qs1, sent1)
         | (Inr d, qs1, sent1) \<Rightarrow> (Inr d, qs1\<lparr> data_dict := d \<rparr>, sent1))
      else (Inr (data_dict qs), qs, sent))"

text \<open>
  \<^verbatim>\<open>Project.from_dict(d, query_set)\<close>: the fields are read with \<^verbatim>\<open>d.get\<close>, which only a
  dictionary has. The project takes the connection of the query set; its reference
  back to the query set object itself is not represented.
\<close>

definition from_dict :: "json \<Rightarrow> queryset \<Rightarrow> error + project" where
  "from_dict d qs =
     (case d of
        JObj kvs \<Rightarrow>
          Inr \<lparr> p_id = dict_get kvs ''id'', p_name = dict_get kvs ''name'',
                p_description = dict_get kvs ''description'', p_href = dict_get kvs ''href'',
                p_web_url = dict_get kvs ''webUrl'',
                p_parent_project_id = dict_get kvs ''parentProjectId'',
                p_teamcity = qs_teamcity qs, p_data_dict = d \<rparr>
      | _ \<Rightarrow> Inl AttributeError)"

text \<open>The decoded values \<^verbatim>\<open>from_dict\<close> accepts: JSON objects.\<close>

fun is_dict :: "json \<Rightarrow> bool" where
  "is_dict (JObj kvs) = True"
| "is_dict JNull = False"
| "is_dict (JBool b) = False"
| "is_dict (JInt n) = False"
| "is_dict (JStr s) = False"
| "is_dict (JList xs) = False"

text \<open>\<^verbatim>\<open>QuerySet.__len__\<close>, and the builtin \<^verbatim>\<open>len\<close> applied to a query set.\<close>

definition dunder_len :: "queryset \<Rightarrow> string list \<Rightarrow> json outcome" where
  "dunder_len qs sent =
     (case data qs sent False None of
        (Inl e, qs1, sent1) \<Rightarrow> (Inl e, qs1, sent1)
      | (Inr d, qs1, sent1) \<Rightarrow> (subscript d ''count'', qs1, sent1))"

definition len :: "queryset \<Rightarrow> string list \<Rightarrow> int outcome" where
  "len qs sent =
     (case dunder_len qs sent of
        (Inl e, qs1, sent1) \<Rightarrow> (Inl e, qs1, sent1)
      | (Inr v, qs1, sent1) \<Rightarrow> (len_check v, qs1, sent1))"

text \<open>\<^verbatim>\<open>QuerySet.get\<close>: what it returns is a URL or an entity.\<close>

datatype got = Url string | Entity project

definition get ::
  "queryset \<Rightarrow> string list \<Rightarrow> bool \<Rightarrow> bool \<Rightarrow> string option \<Rightarrow> string option \<Rightarrow> got outcome"
where
  "get qs sent just_url raise_multiple_objects_returned ident name =
     (let qs1 = filter_qs qs ident name;
          checked =
            (if raise_multiple_objects_returned then
               (case len qs1 sent of
                  (Inl e, qs2, sent2) \<Rightarrow> (Inl e, qs2, sent2)
                | (Inr n, qs2, sent2) \<Rightarrow>
                    if 1 < n then (Inl MultipleObjectsReturned, qs2, sent2)
                    else (Inr (), qs2, sent2))
             else (Inr (), qs1, sent))
      in case checked of
           (Inl e, qs2, sent2) \<Rightarrow> (Inl e, qs2, sent2)
         | (Inr _, qs2, sent2) \<Rightarrow>
             (let qs3 = qs2\<lparr> data_dict := JNull \<rparr>
              in if just_url then (Inr (Url (get_url qs3 True None)), qs3, sent2)
                 else (case data qs3 sent2 True None of
                         (Inl e, qs4, sent4) \<Rightarrow> (Inl e, qs4, sent4)
                       | (Inr d, qs4, sent4) \<Rightarrow>
                           (case from_dict d qs4 of
                              Inl e \<Rightarrow> (Inl e, qs4, sent4)
                            | Inr p \<Rightarrow> (Inr (Entity p), qs4, sent4)))))"

text \<open>
  \<^verbatim>\<open>ProjectQuerySet.__iter__\<close>: the generator expression evaluates
  \<^verbatim>\<open>self._data()["project"]\<close> and takes its iterator at once; the entities are built one
  by one as the generator is advanced. The result here is the sequence the generator
  will map \<^verbatim>\<open>from_dict\<close> over.
\<close>

definition dunder_iter :: "queryset \<Rightarrow> string list \<Rightarrow> (json list) outcome" where
  "dunder_iter qs sent =
     (case data qs sent False None of
        (Inl e, qs1, sent1) \<Rightarrow> (Inl e, qs1, sent1)
      | (Inr d, qs1, sent1) \<Rightarrow>
          (case subscript d ''project'' of
             Inl e \<Rightarrow> (Inl e, qs1, sent1)
           | Inr v \<Rightarrow> (iter_elems v, qs1, sent1)))"

text \<open>
  \<^verbatim>\<open>next(itertools.islice(gen, k, k + 1))\<close>: the slice advances the generator over the
  first \<open>k\<close> elements, building and dropping their entities, and returns the next one;
  a generator that ends first leaves \<^verbatim>\<open>next\<close> to raise \<^verbatim>\<open>StopIteration\<close>.
\<close>

fun islice_next :: "queryset \<Rightarrow> json list \<Rightarrow> nat \<Rightarrow> error + project" where
  "islice_next qs [] k = Inl StopIteration"
| "islice_next qs (d # ds) 0 = from_dict d qs"
| "islice_next qs (d # ds) (Suc k) =
     (case from_dict d qs of Inl e \<Rightarrow> Inl e | Inr p \<Rightarrow> islice_next qs ds k)"

text \<open>
  \<^verbatim>\<open>QuerySet.__getitem__\<close> with an integer index. \<^verbatim>\<open>islice(self, index, index + 1)\<close>
  checks its bounds before it asks for the iterator: both must lie between 0 and
  \<^verbatim>\<open>sys.maxsize\<close>, so a negative index, and an index whose successor exceeds
  \<^verbatim>\<open>sys.maxsize\<close>, is refused with \<^verbatim>\<open>ValueError\<close> and nothing is fetched. A
  \<^verbatim>\<open>TypeError\<close> from taking the iterator is caught, and the handler's \<^verbatim>\<open>index.start\<close>
  on an integer raises \<^verbatim>\<open>AttributeError\<close>.
\<close>

definition getitem :: "queryset \<Rightarrow> string list \<Rightarrow> int \<Rightarrow> project outcome" where
  "getitem qs sent index =
     (if index < 0 \<or> maxsize < index + 1 then (Inl ValueError, qs, sent)
      else (case dunder_iter qs sent of
              (Inl e, qs1, sent1) \<Rightarrow>
                (if e = TypeError then (Inl AttributeError, qs1, sent1) else (Inl e, qs1, sent1))
            | (Inr ds, qs1, sent1) \<Rightarrow> (islice_next qs1 ds (nat index), qs1, sent1)))"

section \<open>Concrete connections and payloads\<close>

text \<open>
  Inputs on which the theorems below are evaluated: a response with status 200 and a
  given decoded body, a server that always gives the same response, an anonymous
  connection with the default protocol and port, and two collection payloads.
\<close>

definition ok_response :: "json \<Rightarrow> response" where
  "ok_response d = \<lparr> status_code = 200, error_str = [], body_text = [], body_json = Some d \<rparr>"

definition always :: "response \<Rightarrow> transport" where
  "always res = (\<lambda>sent u. Answers res)"

definition tc_guest :: "transport \<Rightarrow> teamcity" where
  "tc_guest srv = TeamCity_init None None ''http'' ''127.0.0.1'' None srv"

definition two_projects :: json where
  "two_projects =
     JObj [(''count'', JInt 2),
           (''project'', JList [JObj [(''id'', JStr ''A'')], JObj [(''id'', JStr ''B'')]])]"

definition one_project :: json where
  "one_project = JObj [(''count'', JInt 1), (''project'', JList [JObj [(''id'', JStr ''A'')]])]"

definition fresh_two :: queryset where
  "fresh_two = QuerySet_init (tc_guest (always (ok_response two_projects)))"

definition fresh_one :: queryset where
  "fresh_one = QuerySet_init (tc_guest (always (ok_response one_project)))"

text \<open>
  Two query sets that already carry the filter \<^verbatim>\<open>name="N"\<close>, a response with a given
  status and no decodable body, an \<^verbatim>\<open>https\<close> connection, and two payloads whose
  \<^verbatim>\<open>count\<close> is negative or missing.
\<close>

definition named_N :: queryset where
  "named_N = filter_qs fresh_one None (Some ''N'')"

definition named_N_two :: queryset where
  "named_N_two = filter_qs fresh_two None (Some ''N'')"

definition status_response :: "int \<Rightarrow> string \<Rightarrow> string \<Rightarrow> response" where
  "status_response c msg body =
     \<lparr> status_code = c, error_str = msg, body_text = body, body_json = None \<rparr>"

definition tc_https :: teamcity where
  "tc_https =
     TeamCity_init None None ''https'' ''tc.example.com'' None (always (ok_response one_project))"

definition negative_count :: json where
  "negative_count = JObj [(''count'', JInt (- 1))]"

definition no_count :: json where
  "no_count = JObj [(''project'', JList [])]"

section \<open>Basic facts\<close>

lemmas ex_defs = ok_response_def always_def tc_guest_def two_projects_def one_project_def
  fresh_two_def fresh_one_def TeamCity_init_def QuerySet_init_def uri_def Locator_init_def
  truthy_str_def named_N_def named_N_two_def status_response_def tc_https_def
  negative_count_def no_count_def

lemmas op_defs = len_def dunder_len_def data_def fetch_def get_url_def render_def
  raise_for_status_def Let_def maxsize_def get_def filter_qs_def add_pred_qs_def add_pred_def
  from_dict_def render_pred_def dunder_iter_def getitem_def dict_get_def

lemma join_snoc: "join sep (xs @ [x]) = (if xs = [] then x else join sep xs @ sep @ x)"
  by (induction sep xs rule: join.induct) auto

lemma preds_foldl:
  "preds (foldl (\<lambda>L nv. add_pred L (fst nv) (snd nv)) L0 calls) = preds L0 @ calls"
  by (induction calls arbitrary: L0) (simp_all add: add_pred_def)

lemma render_pred_fun: "render_pred = (\<lambda>nv. fst nv @ '':'' @ snd nv)"
  by (simp add: fun_eq_iff render_pred_def)

lemma render_add_pred:
  "render (add_pred L name v) =
     (if preds L = [] then [] else render L @ '','') @ name @ '':'' @ v"
  by (simp add: render_def add_pred_def join_snoc render_pred_def)

lemma fetch_sent: "snd (snd (fetch qs sent details href)) = sent @ [get_url qs details href]"
  by (simp add: fetch_def Let_def split: reply.splits option.splits)

lemma fetch_qs:
  "fst (snd (fetch qs sent details href)) = qs\<lparr> url := Some (get_url qs details href) \<rparr>"
  by (simp add: fetch_def Let_def split: reply.splits option.splits)

lemma data_unfetched_sent:
  "\<not> truthy (data_dict qs) \<Longrightarrow>
     snd (snd (data qs sent details href)) = sent @ [get_url qs details href]"
  using fetch_sent [of qs sent details href]
  by (auto simp: data_def split: prod.splits sum.splits)

lemma data_fetched:
  "truthy (data_dict qs) \<Longrightarrow> data qs sent details href = (Inr (data_dict qs), qs, sent)"
  by (simp add: data_def)

lemma data_Inr:
  "data qs sent details href = (Inr d, qs1, sent1) \<Longrightarrow> data_dict qs1 = d"
  by (auto simp: data_def split: if_splits prod.splits sum.splits)

lemma dunder_len_sent: "snd (snd (dunder_len qs sent)) = snd (snd (data qs sent False None))"
  by (simp add: dunder_len_def split: prod.splits sum.splits)

lemma len_sent: "snd (snd (len qs sent)) = snd (snd (data qs sent False None))"
  using dunder_len_sent [of qs sent]
  by (auto simp: len_def split: prod.splits sum.splits)

lemma len_Inr:
  assumes "len qs sent = (Inr n, qs1, sent1)"
  shows "\<exists>d. data qs sent False None = (Inr d, qs1, sent1)
           \<and> (\<exists>v. subscript d ''count'' = Inr v \<and> len_check v = Inr n)"
  using assms
  by (auto simp: len_def dunder_len_def split: prod.splits sum.splits)

lemma subscript_truthy: "subscript d k = Inr v \<Longrightarrow> truthy d"
  by (cases d) (auto split: option.splits)

lemma filter_qs_fields:
  "base_url (filter_qs qs ident name) = base_url qs"
  "qs_teamcity (filter_qs qs ident name) = qs_teamcity qs"
  "data_dict (filter_qs qs ident name) = data_dict qs"
  "url (filter_qs qs ident name) = url qs"
  by (simp_all add: filter_qs_def add_pred_qs_def Let_def split: option.splits)

lemma filter_qs_frame:
  "filter_qs qs ident name = qs\<lparr> locator_of := locator_of (filter_qs qs ident name) \<rparr>"
  by (simp add: filter_qs_def add_pred_qs_def Let_def split: option.splits)

lemma filter_qs_none: "filter_qs qs None None = qs"
  by (simp add: filter_qs_def)

lemma filter_qs_id:
  "locator_of (filter_qs qs (Some X) None) = add_pred (locator_of qs) ''id'' X"
  by (simp add: filter_qs_def add_pred_qs_def)

lemma filter_qs_memo:
  "filter_qs (qs\<lparr> data_dict := m \<rparr>) ident name = (filter_qs qs ident name)\<lparr> data_dict := m \<rparr>"
  by (simp add: filter_qs_def add_pred_qs_def Let_def split: option.splits)

lemma data_frame:
  "locator_of (fst (snd (data qs sent details href))) = locator_of qs"
  "base_url (fst (snd (data qs sent details href))) = base_url qs"
  "qs_teamcity (fst (snd (data qs sent details href))) = qs_teamcity qs"
  by (simp_all add: data_def fetch_def Let_def split: reply.splits option.splits)

lemma len_qs: "fst (snd (len qs sent)) = fst (snd (data qs sent False None))"
  by (simp add: len_def dunder_len_def split: prod.splits sum.splits)

lemma len_frame:
  assumes "len qs sent = (r, q2, s2)"
  shows "locator_of q2 = locator_of qs" and "base_url q2 = base_url qs"
    and "qs_teamcity q2 = qs_teamcity qs"
proof -
  have q2: "q2 = fst (snd (data qs sent False None))"
    using assms len_qs [of qs sent] by simp
  show "locator_of q2 = locator_of qs" "base_url q2 = base_url qs"
    "qs_teamcity q2 = qs_teamcity qs"
    unfolding q2 by (rule data_frame)+
qed

lemma dunder_iter_sent: "snd (snd (dunder_iter qs sent)) = snd (snd (data qs sent False None))"
  by (simp add: dunder_iter_def split: prod.splits sum.splits)

lemma from_dict_cong: "qs_teamcity q = qs_teamcity q' \<Longrightarrow> from_dict d q = from_dict d q'"
  by (simp add: from_dict_def split: json.splits)

lemma from_dict_memo: "from_dict d (qs\<lparr> data_dict := m \<rparr>) = from_dict d qs"
  by (rule from_dict_cong) simp

lemma from_dict_is_dict:
  "is_dict d \<Longrightarrow> \<exists>p. from_dict d qs = Inr p \<and> p_data_dict p = d \<and> p_teamcity p = qs_teamcity qs"
  by (cases d) (simp_all add: from_dict_def)

text \<open>
  \<^verbatim>\<open>get\<close> without the count check is one detail fetch on the filtered query set with
  its payload cleared, and \<^verbatim>\<open>get\<close> with the check is \<^verbatim>\<open>len\<close> followed, when the count
  allows, by that.
\<close>

lemma get_plain:
  "get qs sent False False ident name =
     (let q = (filter_qs qs ident name)\<lparr> data_dict := JNull \<rparr>
      in case fetch q sent True None of
           (Inl e, q1, s1) \<Rightarrow> (Inl e, q1, s1)
         | (Inr d, q1, s1) \<Rightarrow>
             (case from_dict d qs of
                Inl e \<Rightarrow> (Inl e, q1\<lparr> data_dict := d \<rparr>, s1)
              | Inr p \<Rightarrow> (Inr (Entity p), q1\<lparr> data_dict := d \<rparr>, s1)))"
  by (simp add: get_def data_def Let_def from_dict_def filter_qs_fields fetch_def
      split: prod.splits sum.splits reply.splits option.splits json.splits)

lemma get_plain_sent:
  "snd (snd (get qs sent False False ident name))
     = sent @ [base_url qs @ render (locator_of (filter_qs qs ident name))]"
  by (simp add: get_plain Let_def fetch_def get_url_def filter_qs_fields
      split: prod.splits sum.splits reply.splits option.splits)

lemma get_plain_memo:
  "get (qs\<lparr> data_dict := m \<rparr>) sent False False ident name = get qs sent False False ident name"
  by (simp add: get_plain filter_qs_memo from_dict_memo split: prod.splits sum.splits)

lemma get_checked:
  "get qs sent just_url True ident name =
     (case len (filter_qs qs ident name) sent of
        (Inl e, q2, s2) \<Rightarrow> (Inl e, q2, s2)
      | (Inr n, q2, s2) \<Rightarrow>
          if 1 < n then (Inl MultipleObjectsReturned, q2, s2)
          else get q2 s2 just_url False None None)"
  by (simp add: get_def Let_def filter_qs_none split: prod.splits sum.splits)

text \<open>Only \<^verbatim>\<open>get\<close> itself raises the multiple-objects condition.\<close>

lemma fetch_not_multiple: "fst (fetch qs sent details href) \<noteq> Inl MultipleObjectsReturned"
  by (simp add: fetch_def Let_def split: reply.splits option.splits)

lemma data_not_multiple: "fst (data qs sent details href) \<noteq> Inl MultipleObjectsReturned"
  using fetch_not_multiple [of qs sent details href]
  by (auto simp: data_def split: prod.splits sum.splits)

lemma subscript_not_multiple: "subscript d k \<noteq> Inl MultipleObjectsReturned"
  by (cases d) (auto split: option.splits)

lemma len_check_not_multiple: "len_check v \<noteq> Inl MultipleObjectsReturned"
  by (cases v) auto

lemma len_not_multiple: "fst (len qs sent) \<noteq> Inl MultipleObjectsReturned"
  using data_not_multiple [of qs sent False None]
  by (auto simp: len_def dunder_len_def subscript_not_multiple len_check_not_multiple
      split: prod.splits sum.splits)

lemma from_dict_not_multiple: "from_dict d qs \<noteq> Inl MultipleObjectsReturned"
  by (cases d) (simp_all add: from_dict_def)

lemma get_plain_not_multiple:
  "fst (get qs sent just_url False ident name) \<noteq> Inl MultipleObjectsReturned"
  using data_not_multiple [of "(filter_qs qs ident name)\<lparr> data_dict := JNull \<rparr>" sent True None]
  by (auto simp: get_def Let_def from_dict_not_multiple split: prod.splits sum.splits)

text \<open>Advancing over a sequence of dictionaries never fails before the sequence ends.\<close>

lemma islice_next_dicts:
  "list_all is_dict ds \<Longrightarrow>
     islice_next qs ds k = (if k < length ds then from_dict (ds ! k) qs else Inl StopIteration)"
proof (induction qs ds k rule: islice_next.induct)
  case (1 qs k)
  then show ?case by simp
next
  case (2 qs d ds)
  then show ?case by simp
next
  case (3 qs d ds k)
  from "3.prems" have "is_dict d" and rest: "list_all is_dict ds" by simp_all
  then obtain p where "from_dict d qs = Inr p" using from_dict_is_dict by blast
  with "3.IH" rest show ?case by simp
qed

section \<open>The locator and the URL\<close>

text \<open>
  Claim C4. Whatever the sequence of \<^verbatim>\<open>add_predicate\<close> calls on a fresh locator, the
  locator holds exactly the pairs of the calls, in call order (a repeated name is one
  more pair, nothing is replaced), and \<^verbatim>\<open>render\<close> is their comma-joined
  \<^verbatim>\<open>name:value\<close> forms. With no call the rendering is the empty string, and the
  collection URL of a query set with that locator is the base URL alone: no
  \<^verbatim>\<open>?locator=\<close> is appended.
\<close>

theorem locator_render_in_call_order:
  "preds (foldl (\<lambda>L nv. add_pred L (fst nv) (snd nv)) Locator_init calls) = calls
   \<and> render (foldl (\<lambda>L nv. add_pred L (fst nv) (snd nv)) Locator_init calls)
       = join '','' (map (\<lambda>nv. fst nv @ '':'' @ snd nv) calls)
   \<and> render Locator_init = []
   \<and> get_url (qs\<lparr> locator_of := Locator_init \<rparr>) False None = base_url qs"
  by (simp add: preds_foldl render_def Locator_init_def get_url_def render_pred_fun)

text \<open>
  Claim C8. In every state of the query set, \<^verbatim>\<open>get(just_url=True)\<close> (with any filter
  criteria) returns a URL and sends nothing: the requests sent are the same after
  the call as before, so no response is read or decoded. The URL is the base URL
  followed directly by the rendered locator, without \<^verbatim>\<open>?locator=\<close>.
\<close>

theorem get_just_url:
  "get qs sent True False ident name =
     (Inr (Url (base_url qs @ render (locator_of (filter_qs qs ident name)))),
      (filter_qs qs ident name)\<lparr> data_dict := JNull \<rparr>, sent)"
  by (simp add: get_def get_url_def filter_qs_def add_pred_qs_def Let_def split: option.splits)

section \<open>Memoization\<close>

text \<open>
  Claim C2. On a query set with no memoized payload, \<^verbatim>\<open>len\<close> sends exactly one
  request, the collection URL. When that first call returns a count, a second
  \<^verbatim>\<open>len\<close> on the query set as the first call left it sends nothing, leaves the query
  set (and so the memoized payload) as it is, and returns the same count.
\<close>

theorem len_fetches_once_then_memoized:
  assumes "\<not> truthy (data_dict qs)"
  shows "snd (snd (len qs sent)) = sent @ [get_url qs False None]
         \<and> (\<forall>n qs1 sent1. len qs sent = (Inr n, qs1, sent1) \<longrightarrow>
               len qs1 sent1 = (Inr n, qs1, sent1) \<and> truthy (data_dict qs1))"
proof (intro conjI allI impI)
  show "snd (snd (len qs sent)) = sent @ [get_url qs False None]"
    using assms by (simp add: len_sent data_unfetched_sent)
next
  fix n qs1 sent1
  assume first: "len qs sent = (Inr n, qs1, sent1)"
  then obtain d v where d: "data qs sent False None = (Inr d, qs1, sent1)"
    and v: "subscript d ''count'' = Inr v" and n: "len_check v = Inr n"
    using len_Inr by blast
  have memo: "data_dict qs1 = d" using d by (rule data_Inr)
  have t: "truthy (data_dict qs1)" using v memo subscript_truthy by simp
  then have "data qs1 sent1 False None = (Inr d, qs1, sent1)"
    using memo by (simp add: data_fetched)
  then show "len qs1 sent1 = (Inr n, qs1, sent1)"
    using v n by (simp add: len_def dunder_len_def)
  show "truthy (data_dict qs1)" by (rule t)
qed

theorem len_fetches_once_then_memoized_witness:
  "\<not> truthy (data_dict fresh_two)
   \<and> fst (len fresh_two []) = Inr 2
   \<and> snd (snd (len fresh_two [])) = [''http://127.0.0.1/guestAuth/app/rest/projects/'']
   \<and> len (fst (snd (len fresh_two []))) (snd (snd (len fresh_two []))) = len fresh_two []"
proof -
  have h: "\<not> truthy (data_dict fresh_two)"
    by (simp add: ex_defs)
  have n: "fst (len fresh_two []) = Inr 2"
    by (simp add: ex_defs op_defs)
  have s: "snd (snd (len fresh_two [])) = [''http://127.0.0.1/guestAuth/app/rest/projects/'']"
    by (simp add: ex_defs op_defs)
  have e: "len fresh_two [] = (Inr 2, fst (snd (len fresh_two [])), snd (snd (len fresh_two [])))"
    using n by (metis prod.collapse)
  from len_fetches_once_then_memoized [OF h, of "[]"] e
  have "len (fst (snd (len fresh_two []))) (snd (snd (len fresh_two [])))
          = (Inr 2, fst (snd (len fresh_two [])), snd (snd (len fresh_two [])))"
    by blast
  with e have "len (fst (snd (len fresh_two []))) (snd (snd (len fresh_two []))) = len fresh_two []"
    by simp
  with h n s show ?thesis by blast
qed

text \<open>
  Claim C9. \<^verbatim>\<open>get(just_url=True)\<close> sends nothing and leaves the query set with the
  payload cleared (\<^verbatim>\<open>None\<close>, the unfetched state) and the locator as the applied
  filters made it (unchanged when no criterion is given); the connection, the base
  URL and the last fetched URL are as before. A following \<^verbatim>\<open>len\<close> or iteration then
  sends one fresh request, the collection URL.
\<close>

theorem get_just_url_resets:
  "get qs sent True False ident name
     = (Inr (Url (get_url (qs\<lparr> locator_of := locator_of (filter_qs qs ident name),
                               data_dict := JNull \<rparr>) True None)),
        qs\<lparr> locator_of := locator_of (filter_qs qs ident name), data_dict := JNull \<rparr>, sent)
   \<and> locator_of (filter_qs qs None None) = locator_of qs
   \<and> \<not> truthy (data_dict (qs\<lparr> locator_of := locator_of (filter_qs qs ident name),
                                 data_dict := JNull \<rparr>))
   \<and> snd (snd (len (qs\<lparr> locator_of := locator_of (filter_qs qs ident name),
                         data_dict := JNull \<rparr>) sent))
       = sent @ [get_url (filter_qs qs ident name) False None]
   \<and> snd (snd (dunder_iter (qs\<lparr> locator_of := locator_of (filter_qs qs ident name),
                                 data_dict := JNull \<rparr>) sent))
       = sent @ [get_url (filter_qs qs ident name) False None]"
proof -
  let ?q = "qs\<lparr> locator_of := locator_of (filter_qs qs ident name), data_dict := JNull \<rparr>"
  have q: "(filter_qs qs ident name)\<lparr> data_dict := JNull \<rparr> = ?q"
    using filter_qs_frame [of qs ident name] by metis
  have g: "get qs sent True False ident name = (Inr (Url (get_url ?q True None)), ?q, sent)"
    unfolding q [symmetric] by (simp add: get_def Let_def)
  have u: "get_url ?q False None = get_url (filter_qs qs ident name) False None"
    by (simp add: get_url_def Let_def filter_qs_fields)
  have f: "locator_of (filter_qs qs None None) = locator_of qs"
    by (simp add: filter_qs_def)
  have t: "\<not> truthy (data_dict ?q)" by simp
  have l: "snd (snd (len ?q sent)) = sent @ [get_url (filter_qs qs ident name) False None]"
    using t u by (simp add: len_sent data_unfetched_sent del: truthy.simps)
  have i: "snd (snd (dunder_iter ?q sent)) = sent @ [get_url (filter_qs qs ident name) False None]"
    using t u by (simp add: dunder_iter_sent data_unfetched_sent del: truthy.simps)
  from g f t l i show ?thesis by blast
qed

section \<open>\<^verbatim>\<open>get\<close> after a filter\<close>

text \<open>
  Claim C1, as amended. For every query set, \<^verbatim>\<open>filter(id="X")\<close> followed by \<^verbatim>\<open>get()\<close>
  sends exactly one request, to the base URL with the rendered locator appended
  directly (no \<^verbatim>\<open>?locator=\<close>). The rendered locator is the predicates added earlier,
  if any, followed by \<^verbatim>\<open>id:X\<close>; it is \<^verbatim>\<open>id:X\<close> alone when none was added before. The
  outcome does not depend on the payload memoized before the call, and the result is
  read from the reply to that request.
\<close>

theorem filter_id_then_get:
  "snd (snd (get (filter_qs qs (Some X) None) sent False False None None))
     = sent @ [base_url qs @ render (locator_of (filter_qs qs (Some X) None))]
   \<and> render (locator_of (filter_qs qs (Some X) None))
     = (if preds (locator_of qs) = [] then [] else render (locator_of qs) @ '','') @ ''id:'' @ X
   \<and> get (filter_qs (qs\<lparr> data_dict := m \<rparr>) (Some X) None) sent False False None None
     = get (filter_qs qs (Some X) None) sent False False None None
   \<and> fst (get (filter_qs qs (Some X) None) sent False False None None)
     = (case session_get (qs_teamcity qs) sent
               (base_url qs @ render (locator_of (filter_qs qs (Some X) None))) of
          Raises msg \<Rightarrow> Inl (RequestException msg)
        | Answers res \<Rightarrow>
            if raise_for_status res then
              (if status_code res = 401
               then Inl (UnauthorizedError (status_code res) (error_str res) (body_text res))
               else Inl (HTTPError (status_code res) (error_str res) (body_text res)))
            else (case body_json res of
                    None \<Rightarrow> Inl JSONDecodeError
                  | Some d \<Rightarrow> (case from_dict d qs of Inl e \<Rightarrow> Inl e | Inr p \<Rightarrow> Inr (Entity p))))"
proof -
  let ?q = "filter_qs qs (Some X) None"
  have a: "snd (snd (get ?q sent False False None None))
             = sent @ [base_url qs @ render (locator_of ?q)]"
    by (simp add: get_plain_sent filter_qs_none filter_qs_fields)
  have b: "render (locator_of ?q)
             = (if preds (locator_of qs) = [] then [] else render (locator_of qs) @ '','') @ ''id:'' @ X"
    by (simp add: filter_qs_id render_add_pred)
  have fm: "filter_qs (qs\<lparr> data_dict := m \<rparr>) (Some X) None = ?q\<lparr> data_dict := m \<rparr>"
    by (rule filter_qs_memo)
  have c: "get (filter_qs (qs\<lparr> data_dict := m \<rparr>) (Some X) None) sent False False None None
             = get ?q sent False False None None"
    unfolding fm by (rule get_plain_memo)
  have ne: "render (locator_of ?q) \<noteq> []"
    by (simp add: b)
  have u: "get_url (?q\<lparr> data_dict := JNull \<rparr>) True None = base_url qs @ render (locator_of ?q)"
    using ne by (simp add: get_url_def Let_def filter_qs_fields)
  have d: "fst (get ?q sent False False None None)
     = (case session_get (qs_teamcity qs) sent (base_url qs @ render (locator_of ?q)) of
          Raises msg \<Rightarrow> Inl (RequestException msg)
        | Answers res \<Rightarrow>
            if raise_for_status res then
              (if status_code res = 401
               then Inl (UnauthorizedError (status_code res) (error_str res) (body_text res))
               else Inl (HTTPError (status_code res) (error_str res) (body_text res)))
            else (case body_json res of
                    None \<Rightarrow> Inl JSONDecodeError
                  | Some d \<Rightarrow> (case from_dict d qs of Inl e \<Rightarrow> Inl e | Inr p \<Rightarrow> Inr (Entity p))))"
    unfolding get_plain filter_qs_none Let_def fetch_def u
    by (simp add: filter_qs_fields from_dict_cong [of ?q qs]
        split: reply.splits option.splits sum.splits)
  from a b c d show ?thesis by blast
qed

text \<open>
  The claim as first stated fails on a query set that already carries a filter: after
  \<^verbatim>\<open>filter(name="N")\<close>, the request of \<^verbatim>\<open>filter(id="X").get()\<close> goes to the base URL
  followed by \<^verbatim>\<open>name:N,id:X\<close>, not by \<^verbatim>\<open>id:X\<close>.
\<close>

theorem filter_id_then_get_counterexample:
  "snd (snd (get (filter_qs named_N (Some ''X'') None) [] False False None None))
     = [''http://127.0.0.1/guestAuth/app/rest/projects/name:N,id:X'']
   \<and> base_url named_N @ ''id:X'' = ''http://127.0.0.1/guestAuth/app/rest/projects/id:X''
   \<and> snd (snd (get (filter_qs named_N (Some ''X'') None) [] False False None None))
     \<noteq> [base_url named_N @ ''id:X'']"
  by (simp add: get_plain_sent filter_qs_none ex_defs filter_qs_def add_pred_qs_def
      add_pred_def render_def render_pred_def)

section \<open>The count check of \<^verbatim>\<open>get\<close>\<close>

text \<open>
  Claim C3, as amended. On a query set with no memoized payload,
  \<^verbatim>\<open>get(raise_multiple_objects_returned=True)\<close> first sends the un-detailed count
  request of the length path. When the count exceeds 1 the multiple-objects
  condition is raised and no detail request follows (one request in all); when the
  count is at most 1 the call goes on as a plain \<^verbatim>\<open>get\<close>, so the detail request
  follows (two requests in all) and the condition is not raised; an error of the
  length path is passed on. The condition is raised exactly when the length path
  returns a count above 1.
\<close>

theorem get_raise_multiple:
  assumes "\<not> truthy (data_dict qs)"
  shows "snd (snd (len (filter_qs qs ident name) sent))
           = sent @ [get_url (filter_qs qs ident name) False None]
       \<and> (\<forall>n q2 s2. len (filter_qs qs ident name) sent = (Inr n, q2, s2) \<and> 1 < n \<longrightarrow>
             get qs sent False True ident name = (Inl MultipleObjectsReturned, q2, s2))
       \<and> (\<forall>n q2 s2. len (filter_qs qs ident name) sent = (Inr n, q2, s2) \<and> n \<le> 1 \<longrightarrow>
             get qs sent False True ident name = get q2 s2 False False None None
             \<and> snd (snd (get qs sent False True ident name))
                 = sent @ [get_url (filter_qs qs ident name) False None,
                           base_url qs @ render (locator_of (filter_qs qs ident name))])
       \<and> (\<forall>e q2 s2. len (filter_qs qs ident name) sent = (Inl e, q2, s2) \<longrightarrow>
             get qs sent False True ident name = (Inl e, q2, s2))
       \<and> ((fst (get qs sent False True ident name) = Inl MultipleObjectsReturned)
            = (\<exists>n. fst (len (filter_qs qs ident name) sent) = Inr n \<and> 1 < n))"
proof -
  let ?q = "filter_qs qs ident name"
  have a: "snd (snd (len ?q sent)) = sent @ [get_url ?q False None]"
    using assms by (simp add: len_sent data_unfetched_sent filter_qs_fields)
  have b: "\<forall>n q2 s2. len ?q sent = (Inr n, q2, s2) \<and> 1 < n \<longrightarrow>
             get qs sent False True ident name = (Inl MultipleObjectsReturned, q2, s2)"
    by (simp add: get_checked)
  have c: "\<forall>n q2 s2. len ?q sent = (Inr n, q2, s2) \<and> n \<le> 1 \<longrightarrow>
             get qs sent False True ident name = get q2 s2 False False None None
             \<and> snd (snd (get qs sent False True ident name))
                 = sent @ [get_url ?q False None, base_url qs @ render (locator_of ?q)]"
  proof (intro allI impI)
    fix n q2 s2
    assume h: "len ?q sent = (Inr n, q2, s2) \<and> n \<le> 1"
    then have g: "get qs sent False True ident name = get q2 s2 False False None None"
      by (simp add: get_checked)
    have s2: "s2 = sent @ [get_url ?q False None]"
      using a h by simp
    have "locator_of q2 = locator_of ?q" and "base_url q2 = base_url qs"
      using h len_frame [of ?q sent "Inr n" q2 s2] by (simp_all add: filter_qs_fields)
    then have "snd (snd (get q2 s2 False False None None))
                 = s2 @ [base_url qs @ render (locator_of ?q)]"
      by (simp add: get_plain_sent filter_qs_none)
    with g s2 show "get qs sent False True ident name = get q2 s2 False False None None
             \<and> snd (snd (get qs sent False True ident name))
                 = sent @ [get_url ?q False None, base_url qs @ render (locator_of ?q)]"
      by simp
  qed
  have d: "\<forall>e q2 s2. len ?q sent = (Inl e, q2, s2) \<longrightarrow>
             get qs sent False True ident name = (Inl e, q2, s2)"
    by (simp add: get_checked)
  have e: "(fst (get qs sent False True ident name) = Inl MultipleObjectsReturned)
            = (\<exists>n. fst (len ?q sent) = Inr n \<and> 1 < n)"
  proof (cases "len ?q sent")
    case (fields r q2 s2)
    show ?thesis
    proof (cases r)
      case (Inl err)
      with fields len_not_multiple [of ?q sent] show ?thesis
        by (simp add: get_checked)
    next
      case (Inr n)
      with fields get_plain_not_multiple [of q2 s2 False None None] show ?thesis
        by (simp add: get_checked)
    qed
  qed
  from a b c d e show ?thesis by blast
qed

theorem get_raise_multiple_witness:
  "\<not> truthy (data_dict fresh_one)
   \<and> fst (len (filter_qs fresh_one None (Some ''N'')) []) = Inr 1
   \<and> snd (snd (get fresh_one [] False True None (Some ''N'')))
       = [''http://127.0.0.1/guestAuth/app/rest/projects/?locator=name:N'',
          ''http://127.0.0.1/guestAuth/app/rest/projects/name:N'']
   \<and> \<not> truthy (data_dict fresh_two)
   \<and> fst (len (filter_qs fresh_two None (Some ''N'')) []) = Inr 2
   \<and> fst (get fresh_two [] False True None (Some ''N'')) = Inl MultipleObjectsReturned"
proof -
  let ?q1 = "filter_qs fresh_one None (Some ''N'')"
  let ?q2 = "filter_qs fresh_two None (Some ''N'')"
  have h1: "\<not> truthy (data_dict fresh_one)" and h2: "\<not> truthy (data_dict fresh_two)"
    by (simp_all add: ex_defs)
  have n1: "fst (len ?q1 []) = Inr 1" and n2: "fst (len ?q2 []) = Inr 2"
    by (simp_all add: ex_defs op_defs)
  have e1: "len ?q1 [] = (Inr 1, fst (snd (len ?q1 [])), snd (snd (len ?q1 []))) \<and> (1::int) \<le> 1"
    using n1 by (metis prod.collapse order_refl)
  have u: "[] @ [get_url ?q1 False None, base_url fresh_one @ render (locator_of ?q1)]
             = [''http://127.0.0.1/guestAuth/app/rest/projects/?locator=name:N'',
                ''http://127.0.0.1/guestAuth/app/rest/projects/name:N'']"
    by (simp add: ex_defs op_defs)
  from get_raise_multiple [OF h1, of None "Some ''N''" "[]"] e1
  have "snd (snd (get fresh_one [] False True None (Some ''N'')))
          = [] @ [get_url ?q1 False None, base_url fresh_one @ render (locator_of ?q1)]"
    by blast
  with u have r1: "snd (snd (get fresh_one [] False True None (Some ''N'')))
       = [''http://127.0.0.1/guestAuth/app/rest/projects/?locator=name:N'',
          ''http://127.0.0.1/guestAuth/app/rest/projects/name:N'']"
    by simp
  have "\<exists>n. fst (len ?q2 []) = Inr n \<and> 1 < n"
    using n2 by simp
  with get_raise_multiple [OF h2, of None "Some ''N''" "[]"]
  have r2: "fst (get fresh_two [] False True None (Some ''N'')) = Inl MultipleObjectsReturned"
    by blast
  from h1 n1 r1 h2 n2 r2 show ?thesis by blast
qed

text \<open>
  The claim as first stated fails on a query set that holds a memoized payload: after
  a \<^verbatim>\<open>len\<close>, the call \<^verbatim>\<open>get(raise_multiple_objects_returned=True)\<close> reads the count
  from the memoized payload and sends the detail request only, one request and not
  two.
\<close>

theorem get_raise_multiple_counterexample:
  "fst (len named_N []) = Inr 1
   \<and> snd (snd (len named_N []))
       = [''http://127.0.0.1/guestAuth/app/rest/projects/?locator=name:N'']
   \<and> snd (snd (get (fst (snd (len named_N []))) (snd (snd (len named_N []))) False True None None))
       = [''http://127.0.0.1/guestAuth/app/rest/projects/?locator=name:N'',
          ''http://127.0.0.1/guestAuth/app/rest/projects/name:N'']"
  by (simp add: ex_defs op_defs)

section \<open>Failed requests\<close>

text \<open>
  Claim C5, as amended. When the response to a fetch has a status from 400 to 599,
  the statuses for which \<^verbatim>\<open>raise_for_status\<close> raises, the fetch raises the
  Unauthorized condition for 401 and the generic HTTP failure for any other such
  status, and the condition carries the status code, the message and the raw body of
  the response unchanged.
\<close>

theorem fetch_error_status:
  assumes "session_get (qs_teamcity qs) sent (get_url qs details href) = Answers res"
    and "400 \<le> status_code res" and "status_code res < 600"
  shows "fst (fetch qs sent details href) =
           Inl (if status_code res = 401
                then UnauthorizedError (status_code res) (error_str res) (body_text res)
                else HTTPError (status_code res) (error_str res) (body_text res))"
  using assms by (simp add: fetch_def Let_def raise_for_status_def)

theorem fetch_error_status_witness:
  "fst (fetch (QuerySet_init (tc_guest (always (status_response 401 ''401 Client Error'' ''denied''))))
          [] False None)
     = Inl (UnauthorizedError 401 ''401 Client Error'' ''denied'')
   \<and> fst (fetch (QuerySet_init (tc_guest (always (status_response 500 ''500 Server Error'' ''boom''))))
          [] False None)
     = Inl (HTTPError 500 ''500 Server Error'' ''boom'')"
proof -
  let ?q1 = "QuerySet_init (tc_guest (always (status_response 401 ''401 Client Error'' ''denied'')))"
  let ?q5 = "QuerySet_init (tc_guest (always (status_response 500 ''500 Server Error'' ''boom'')))"
  have a1: "session_get (qs_teamcity ?q1) [] (get_url ?q1 False None)
              = Answers (status_response 401 ''401 Client Error'' ''denied'')"
    by (simp add: ex_defs)
  have a5: "session_get (qs_teamcity ?q5) [] (get_url ?q5 False None)
              = Answers (status_response 500 ''500 Server Error'' ''boom'')"
    by (simp add: ex_defs)
  have "fst (fetch ?q1 [] False None) = Inl (UnauthorizedError 401 ''401 Client Error'' ''denied'')"
    using fetch_error_status [OF a1] by (simp add: status_response_def)
  moreover
  have "fst (fetch ?q5 [] False None) = Inl (HTTPError 500 ''500 Server Error'' ''boom'')"
    using fetch_error_status [OF a5] by (simp add: status_response_def)
  ultimately show ?thesis by blast
qed

text \<open>
  The claim as first stated fails for a status that is neither 2xx nor an error
  status: a 304 response without a body is handed to the JSON decoder, and a 300
  response with a JSON body is returned as data; neither raises an HTTP condition.
\<close>

theorem fetch_status_304_counterexample:
  "fst (fetch (QuerySet_init (tc_guest (always (status_response 304 [] [])))) [] False None)
     = Inl JSONDecodeError
   \<and> fst (fetch (QuerySet_init (tc_guest (always ((ok_response one_project)\<lparr> status_code := 300 \<rparr>))))
          [] False None)
     = Inr one_project"
  by (simp add: ex_defs op_defs)

section \<open>An explicit href\<close>

text \<open>
  With an href the URL is the literal scheme \<^verbatim>\<open>http://\<close>, the server name and the
  href: the base path and the locator play no part, and neither do the protocol and
  the port of the connection.
\<close>

lemma get_url_href: "get_url qs details (Some h) = ''http://'' @ server (qs_teamcity qs) @ h"
  by (simp add: get_url_def)

text \<open>
  Claim C6. On a connection configured with \<^verbatim>\<open>https\<close>, whose own base is
  \<^verbatim>\<open>https://tc.example.com\<close>, the URL built for an href starts with \<^verbatim>\<open>http://\<close>: the
  configured protocol is not preserved.
\<close>

theorem get_url_href_ignores_protocol:
  "get_url (QuerySet_init tc_https) False (Some ''/app/rest/projects/id:A'')
     = ''http://tc.example.com/app/rest/projects/id:A''
   \<and> base_base_url tc_https = ''https://tc.example.com''
   \<and> protocol tc_https = ''https''"
  by (simp add: ex_defs op_defs)

section \<open>Length and indexing\<close>

text \<open>
  Claim C10, as amended. Let the length path obtain the payload \<open>d\<close>. The method
  \<^verbatim>\<open>__len__\<close> returns \<^verbatim>\<open>d["count"]\<close> whenever the key is there, and \<^verbatim>\<open>len(queryset)\<close>
  returns that value when it is an integer from 0 to \<^verbatim>\<open>sys.maxsize\<close>. When \<open>d\<close> is a
  dictionary without the key, both fail with the key-lookup error; no default is
  returned.
\<close>

theorem len_reads_count:
  assumes "data qs sent False None = (Inr d, qs1, sent1)"
  shows "(\<forall>v. subscript d ''count'' = Inr v \<longrightarrow> dunder_len qs sent = (Inr v, qs1, sent1))
       \<and> (\<forall>n. subscript d ''count'' = Inr (JInt n) \<and> 0 \<le> n \<and> n \<le> maxsize \<longrightarrow>
             len qs sent = (Inr n, qs1, sent1))
       \<and> (\<forall>kvs. d = JObj kvs \<and> map_of kvs ''count'' = None \<longrightarrow>
             dunder_len qs sent = (Inl (KeyError ''count''), qs1, sent1)
             \<and> len qs sent = (Inl (KeyError ''count''), qs1, sent1))"
  using assms by (auto simp: len_def dunder_len_def)

theorem len_reads_count_witness:
  "fst (data fresh_two [] False None) = Inr two_projects
   \<and> subscript two_projects ''count'' = Inr (JInt 2)
   \<and> fst (len fresh_two []) = Inr 2
   \<and> fst (data (QuerySet_init (tc_guest (always (ok_response no_count)))) [] False None)
       = Inr no_count
   \<and> fst (len (QuerySet_init (tc_guest (always (ok_response no_count)))) [])
       = Inl (KeyError ''count'')"
proof -
  let ?q = "QuerySet_init (tc_guest (always (ok_response no_count)))"
  have d1: "fst (data fresh_two [] False None) = Inr two_projects"
    and d2: "fst (data ?q [] False None) = Inr no_count"
    by (simp_all add: ex_defs op_defs)
  have e1: "data fresh_two [] False None
              = (Inr two_projects, fst (snd (data fresh_two [] False None)),
                 snd (snd (data fresh_two [] False None)))"
    using d1 by (metis prod.collapse)
  have e2: "data ?q [] False None
              = (Inr no_count, fst (snd (data ?q [] False None)), snd (snd (data ?q [] False None)))"
    using d2 by (metis prod.collapse)
  have c1: "subscript two_projects ''count'' = Inr (JInt 2) \<and> (0::int) \<le> 2 \<and> 2 \<le> maxsize"
    by (simp add: ex_defs maxsize_def)
  have c2: "no_count = JObj [(''project'', JList [])]
            \<and> map_of [(''project'', JList [])] ''count'' = None"
    by (simp add: no_count_def)
  from len_reads_count [OF e1] c1
  have "len fresh_two [] = (Inr 2, fst (snd (data fresh_two [] False None)),
                            snd (snd (data fresh_two [] False None)))"
    by blast
  then have r1: "fst (len fresh_two []) = Inr 2" by simp
  from len_reads_count [OF e2] c2
  have "len ?q [] = (Inl (KeyError ''count''), fst (snd (data ?q [] False None)),
                     snd (snd (data ?q [] False None)))"
    by blast
  then have r2: "fst (len ?q []) = Inl (KeyError ''count'')" by simp
  from d1 c1 r1 d2 r2 show ?thesis by blast
qed

text \<open>
  The claim as first stated fails for a negative count: the payload holds the integer
  \<^verbatim>\<open>-1\<close> under \<^verbatim>\<open>count\<close>, and \<^verbatim>\<open>len\<close> raises instead of returning it.
\<close>

theorem len_negative_count_counterexample:
  "fst (data (QuerySet_init (tc_guest (always (ok_response negative_count)))) [] False None)
     = Inr negative_count
   \<and> subscript negative_count ''count'' = Inr (JInt (- 1))
   \<and> fst (len (QuerySet_init (tc_guest (always (ok_response negative_count)))) []) = Inl ValueError"
  by (simp add: ex_defs op_defs)

text \<open>
  Claim C7. Let the payload of the query set hold, under \<^verbatim>\<open>project\<close>, a list of \<open>n\<close>
  dictionaries (a Python list holds at most \<^verbatim>\<open>sys.maxsize\<close> elements). Indexing with
  an integer \<open>i < n\<close>, not negative, returns the entity built from the \<open>i\<close>-th
  dictionary of the list. Indexing with \<open>i \<ge> n\<close> returns nothing and surfaces an
  error for the index: \<^verbatim>\<open>StopIteration\<close>, the condition of a sequence that ended
  early, when \<open>i\<close> is below \<^verbatim>\<open>sys.maxsize\<close>, and the \<^verbatim>\<open>ValueError\<close> with which \<^verbatim>\<open>islice\<close>
  refuses an index outside its range, before anything is fetched, from
  \<^verbatim>\<open>sys.maxsize\<close> on.
\<close>

theorem getitem_index:
  assumes "data qs sent False None = (Inr d, qs1, sent1)"
    and "subscript d ''project'' = Inr (JList ds)"
    and "list_all is_dict ds"
    and "int (length ds) \<le> maxsize"
  shows "(int (length ds) \<le> i \<longrightarrow>
            getitem qs sent i =
              (if i < maxsize then (Inl StopIteration, qs1, sent1) else (Inl ValueError, qs, sent)))
       \<and> (0 \<le> i \<and> i < int (length ds) \<longrightarrow>
            getitem qs sent i = (from_dict (ds ! nat i) qs1, qs1, sent1)
            \<and> (\<exists>p. from_dict (ds ! nat i) qs1 = Inr p \<and> p_data_dict p = ds ! nat i))"
proof -
  have it: "dunder_iter qs sent = (Inr ds, qs1, sent1)"
    using assms(1,2) by (simp add: dunder_iter_def)
  have sl: "\<And>k. islice_next qs1 ds k
                 = (if k < length ds then from_dict (ds ! k) qs1 else Inl StopIteration)"
    using assms(3) by (rule islice_next_dicts)
  have hi: "int (length ds) \<le> i \<longrightarrow>
            getitem qs sent i =
              (if i < maxsize then (Inl StopIteration, qs1, sent1) else (Inl ValueError, qs, sent))"
    using it sl by (auto simp: getitem_def)
  have lo: "0 \<le> i \<and> i < int (length ds) \<longrightarrow>
            getitem qs sent i = (from_dict (ds ! nat i) qs1, qs1, sent1)"
    using it sl assms(4) by (auto simp: getitem_def)
  have en: "0 \<le> i \<and> i < int (length ds) \<longrightarrow>
            (\<exists>p. from_dict (ds ! nat i) qs1 = Inr p \<and> p_data_dict p = ds ! nat i)"
  proof
    assume "0 \<le> i \<and> i < int (length ds)"
    then have "nat i < length ds" by linarith
    then have "is_dict (ds ! nat i)" using assms(3) by (simp add: list_all_length)
    then show "\<exists>p. from_dict (ds ! nat i) qs1 = Inr p \<and> p_data_dict p = ds ! nat i"
      using from_dict_is_dict by blast
  qed
  from hi lo en show ?thesis by blast
qed

theorem getitem_index_witness:
  "fst (data fresh_two [] False None) = Inr two_projects
   \<and> subscript two_projects ''project''
       = Inr (JList [JObj [(''id'', JStr ''A'')], JObj [(''id'', JStr ''B'')]])
   \<and> list_all is_dict [JObj [(''id'', JStr ''A'')], JObj [(''id'', JStr ''B'')]]
   \<and> int (length [JObj [(''id'', JStr ''A'')], JObj [(''id'', JStr ''B'')]]) \<le> maxsize
   \<and> fst (getitem fresh_two [] 0) = from_dict (JObj [(''id'', JStr ''A'')]) fresh_two
   \<and> fst (getitem fresh_two [] 1) = from_dict (JObj [(''id'', JStr ''B'')]) fresh_two
   \<and> fst (getitem fresh_two [] 2) = Inl StopIteration
   \<and> getitem fresh_two [] maxsize = (Inl ValueError, fresh_two, [])"
proof -
  let ?ds = "[JObj [(''id'', JStr ''A'')], JObj [(''id'', JStr ''B'')]]"
  let ?q1 = "fst (snd (data fresh_two [] False None))"
  let ?s1 = "snd (snd (data fresh_two [] False None))"
  have d: "fst (data fresh_two [] False None) = Inr two_projects"
    by (simp add: ex_defs op_defs)
  have e: "data fresh_two [] False None = (Inr two_projects, ?q1, ?s1)"
    using d by (metis prod.collapse)
  have p: "subscript two_projects ''project'' = Inr (JList ?ds)"
    by (simp add: two_projects_def)
  have a: "list_all is_dict ?ds" by simp
  have b: "int (length ?ds) \<le> maxsize" by (simp add: maxsize_def)
  have tc: "qs_teamcity ?q1 = qs_teamcity fresh_two"
    by (rule data_frame)
  have g0: "getitem fresh_two [] 0 = (from_dict (?ds ! nat 0) ?q1, ?q1, ?s1)"
    using getitem_index [OF e p a b, of 0] by simp
  have g1: "getitem fresh_two [] 1 = (from_dict (?ds ! nat 1) ?q1, ?q1, ?s1)"
    using getitem_index [OF e p a b, of 1] by simp
  have g2: "getitem fresh_two [] 2 = (Inl StopIteration, ?q1, ?s1)"
    using getitem_index [OF e p a b, of 2] by (simp add: maxsize_def)
  have g3: "getitem fresh_two [] maxsize = (Inl ValueError, fresh_two, [])"
    using getitem_index [OF e p a b, of maxsize] b by simp
  have r0: "fst (getitem fresh_two [] 0) = from_dict (JObj [(''id'', JStr ''A'')]) fresh_two"
    using g0 from_dict_cong [OF tc] by simp
  have r1: "fst (getitem fresh_two [] 1) = from_dict (JObj [(''id'', JStr ''B'')]) fresh_two"
    using g1 from_dict_cong [OF tc] by simp
  have r2: "fst (getitem fresh_two [] 2) = Inl StopIteration"
    using g2 by simp
  from d p a b r0 r1 r2 g3 show ?thesis by blast
qed

text \<open>An index outside the range of \<^verbatim>\<open>islice\<close> is refused before anything is fetched.\<close>

lemma getitem_out_of_islice_range:
  "i < 0 \<or> maxsize \<le> i \<Longrightarrow> getitem qs sent i = (Inl ValueError, qs, sent)"
  by (auto simp: getitem_def)

end
